theory Spec2Isabelle
  imports Complex_Main "HOL-Library.AList"
begin

section \<open>Data model (data/types.ts)\<close>

text \<open>
  JavaScript numbers are modelled as follows. Identifiers, skill levels, scores and
  game counts are \<open>int\<close>; statistics, probabilities and averages are exact
  \<open>real\<close>s, so IEEE rounding error and overflow are outside the model. A number
  that the program computes through a division whose divisor may be zero is a
  \<open>number\<close> (below), which has the special values of JavaScript.

  Of every interface only the fields read or written by the modelled functions are
  kept. Where two interfaces share a field name the later one carries a suffix.
\<close>

record Player =
  player_id :: int
  name :: string
  skillLevel :: int

record PlayerStats =
  matchesPlayed :: int
  ppm :: real
  winPct :: real

record HeadToHead =
  playerId :: int
  opponentId :: int
  totalGames :: int
  wins :: int
  losses :: int
  avgPointsScored :: real
  avgPointsNeeded :: real
  lastPlayed :: int

section \<open>Skill-level tables (skill-level-tables.ts)\<close>

record SkillLevelInfo =
  level :: int
  pointsNeeded :: int
  expectedPPM :: real
  description :: string

definition NINE_BALL_SKILL_LEVELS :: "SkillLevelInfo list" where
  "NINE_BALL_SKILL_LEVELS =
    [\<lparr>level = 1, pointsNeeded = 14, expectedPPM = 10, description = ''Beginner''\<rparr>,
     \<lparr>level = 2, pointsNeeded = 19, expectedPPM = 14, description = ''Novice''\<rparr>,
     \<lparr>level = 3, pointsNeeded = 25, expectedPPM = 19, description = ''Intermediate''\<rparr>,
     \<lparr>level = 4, pointsNeeded = 31, expectedPPM = 24, description = ''Advanced Intermediate''\<rparr>,
     \<lparr>level = 5, pointsNeeded = 38, expectedPPM = 30, description = ''Skilled''\<rparr>,
     \<lparr>level = 6, pointsNeeded = 46, expectedPPM = 37, description = ''Advanced''\<rparr>,
     \<lparr>level = 7, pointsNeeded = 55, expectedPPM = 45, description = ''Expert''\<rparr>,
     \<lparr>level = 8, pointsNeeded = 65, expectedPPM = 54, description = ''Semi-Pro''\<rparr>,
     \<lparr>level = 9, pointsNeeded = 75, expectedPPM = 63, description = ''Professional''\<rparr>]"

text \<open>\<open>info?.pointsNeeded ?? 38\<close>: a level outside the table falls back to the default.\<close>

definition getPointsNeeded :: "int \<Rightarrow> int" where
  "getPointsNeeded sl =
    (case find (\<lambda>i. level i = sl) NINE_BALL_SKILL_LEVELS of
       None \<Rightarrow> 38
     | Some info \<Rightarrow> pointsNeeded info)"

definition getExpectedPPM :: "int \<Rightarrow> real" where
  "getExpectedPPM sl =
    (case find (\<lambda>i. level i = sl) NINE_BALL_SKILL_LEVELS of
       None \<Rightarrow> 30
     | Some info \<Rightarrow> expectedPPM info)"

text \<open>
  The divisor \<open>playerNeeds\<close> is an entry of the table or the default, never zero, so
  the division is the division of the reals.
\<close>

definition getBaseWinProbability :: "int \<Rightarrow> int \<Rightarrow> real" where
  "getBaseWinProbability playerSkillLevel opponentSkillLevel =
    (let playerNeeds = getPointsNeeded playerSkillLevel;
         opponentNeeds = getPointsNeeded opponentSkillLevel;
         baseProbability = 0.5;
         skillDiff = playerSkillLevel - opponentSkillLevel;
         skillAdjustment = real_of_int skillDiff * 0.015;
         pointRatio = real_of_int opponentNeeds / real_of_int playerNeeds;
         pointAdjustment = (pointRatio - 1) * 0.05;
         baseProbability = baseProbability + (skillAdjustment + pointAdjustment)
     in max 0.2 (min 0.8 baseProbability))"

section \<open>Win-probability model (win-probability.ts)\<close>

record WinProbabilityFactors =
  skillLevelAdvantage :: real
  winPercentageDelta :: real
  headToHeadRecord :: real
  recentFormTrend :: real
  ppmEfficiency :: real

record WinProbabilityResult =
  probability :: real
  factors :: WinProbabilityFactors
  confidence :: real
  dataPoints :: int

definition WEIGHTS :: WinProbabilityFactors where
  "WEIGHTS = \<lparr>skillLevelAdvantage = 0.35, winPercentageDelta = 0.25,
     headToHeadRecord = 0.20, recentFormTrend = 0.15, ppmEfficiency = 0.05\<rparr>"

text \<open>Factor 2. Both statistics objects must be present, each with a match played.\<close>

definition winPercentageDelta_factor ::
  "PlayerStats option \<Rightarrow> PlayerStats option \<Rightarrow> real \<times> int" where
  "winPercentageDelta_factor playerStats opponentStats =
    (case (playerStats, opponentStats) of
       (Some ps, Some os) \<Rightarrow>
         if matchesPlayed ps > 0 \<and> matchesPlayed os > 0 then
           (let playerWinRate = winPct ps / 100;
                opponentWinRate = winPct os / 100;
                d = 0.5 + (playerWinRate - opponentWinRate) * 0.5
            in (max 0.2 (min 0.8 d), 2))
         else (0.5, 0)
     | _ \<Rightarrow> (0.5, 0))"

text \<open>Factor 3. The division is guarded by \<open>totalGames > 0\<close>.\<close>

definition headToHeadRecord_factor :: "HeadToHead option \<Rightarrow> real \<times> int" where
  "headToHeadRecord_factor headToHead =
    (case headToHead of
       Some h \<Rightarrow>
         if totalGames h > 0 then
           (let r = real_of_int (wins h) / real_of_int (totalGames h);
                regFactor = min (real_of_int (totalGames h) / 10) 1
            in (0.5 + (r - 0.5) * regFactor, totalGames h))
         else (0.5, 0)
     | None \<Rightarrow> (0.5, 0))"

text \<open>
  \<open>stats?.winPct ? stats.winPct / 100 : 0.5\<close>: a missing statistics object and a
  win percentage of zero (falsy) both give 0.5.
\<close>

definition seasonWinRate :: "PlayerStats option \<Rightarrow> real" where
  "seasonWinRate stats =
    (case stats of
       None \<Rightarrow> 0.5
     | Some s \<Rightarrow> if winPct s \<noteq> 0 then winPct s / 100 else 0.5)"

text \<open>\<open>recent.reduce((sum, s) => sum + s.winPct, 0) / recent.length / 100\<close>, called on a non-empty array only.\<close>

definition recentWinRate :: "PlayerStats list \<Rightarrow> real" where
  "recentWinRate recent =
    foldl (\<lambda>sum s. sum + winPct s) 0 recent / real (length recent) / 100"

text \<open>Factor 4. An absent array and an empty one are treated alike.\<close>

definition recentFormTrend_factor ::
  "PlayerStats option \<Rightarrow> PlayerStats option \<Rightarrow>
   PlayerStats list option \<Rightarrow> PlayerStats list option \<Rightarrow> real \<times> int" where
  "recentFormTrend_factor playerStats opponentStats recentPlayerStats recentOpponentStats =
    (case recentPlayerStats of
       None \<Rightarrow> (0.5, 0)
     | Some rp \<Rightarrow>
         if length rp > 0 then
           (let playerTrend = 0.5 + (recentWinRate rp - seasonWinRate playerStats) * 2;
                opponentTrend =
                  (case recentOpponentStats of
                     None \<Rightarrow> 0.5
                   | Some ro \<Rightarrow>
                       if length ro > 0
                       then 0.5 + (recentWinRate ro - seasonWinRate opponentStats) * 2
                       else 0.5);
                t = 0.5 + (playerTrend - opponentTrend) * 0.5
            in (max 0.3 (min 0.7 t), int (length rp)))
         else (0.5, 0))"

text \<open>Factor 5. The expected PPM is an entry of the table or the default, never zero.\<close>

definition ppmEfficiency_factor ::
  "Player \<Rightarrow> PlayerStats option \<Rightarrow> Player \<Rightarrow> PlayerStats option \<Rightarrow> real \<times> int" where
  "ppmEfficiency_factor player playerStats opponent opponentStats =
    (case (playerStats, opponentStats) of
       (Some ps, Some os) \<Rightarrow>
         (let playerExpectedPPM = getExpectedPPM (skillLevel player);
              opponentExpectedPPM = getExpectedPPM (skillLevel opponent);
              playerEfficiency = ppm ps / playerExpectedPPM;
              opponentEfficiency = ppm os / opponentExpectedPPM;
              e = 0.5 + (playerEfficiency - opponentEfficiency) * 0.25
          in (max 0.3 (min 0.7 e), 2))
     | _ \<Rightarrow> (0.5, 0))"

text \<open>The weighted sum, before the final clamp.\<close>

definition weightedProbability :: "WinProbabilityFactors \<Rightarrow> real" where
  "weightedProbability fs =
     skillLevelAdvantage WEIGHTS * skillLevelAdvantage fs +
     winPercentageDelta WEIGHTS * winPercentageDelta fs +
     headToHeadRecord WEIGHTS * headToHeadRecord fs +
     recentFormTrend WEIGHTS * recentFormTrend fs +
     ppmEfficiency WEIGHTS * ppmEfficiency fs"

definition calculateWinProbability ::
  "Player \<Rightarrow> PlayerStats option \<Rightarrow> Player \<Rightarrow> PlayerStats option \<Rightarrow>
   HeadToHead option \<Rightarrow> PlayerStats list option \<Rightarrow> PlayerStats list option \<Rightarrow>
   WinProbabilityResult" where
  "calculateWinProbability player playerStats opponent opponentStats headToHead
      recentPlayerStats recentOpponentStats =
    (let dataPoints = 0;
         baseProb = getBaseWinProbability (skillLevel player) (skillLevel opponent);
         dataPoints = dataPoints + 1;
         (wpd, n2) = winPercentageDelta_factor playerStats opponentStats;
         dataPoints = dataPoints + n2;
         (h2h, n3) = headToHeadRecord_factor headToHead;
         dataPoints = dataPoints + n3;
         (form, n4) = recentFormTrend_factor playerStats opponentStats
                        recentPlayerStats recentOpponentStats;
         dataPoints = dataPoints + n4;
         (eff, n5) = ppmEfficiency_factor player playerStats opponent opponentStats;
         dataPoints = dataPoints + n5;
         fs = \<lparr>skillLevelAdvantage = baseProb, winPercentageDelta = wpd,
                headToHeadRecord = h2h, recentFormTrend = form, ppmEfficiency = eff\<rparr>;
         maxDataPoints = 50
     in \<lparr>probability = max 0.15 (min 0.85 (weightedProbability fs)),
         factors = fs,
         confidence = min (real_of_int dataPoints / maxDataPoints) 1,
         dataPoints = dataPoints\<rparr>)"

section \<open>JavaScript numbers and strings\<close>

text \<open>
  The special values of a JavaScript number. Finite values are exact reals; the sign
  of zero is not modelled (the only zero divisors of the program are array lengths,
  which are \<open>+0\<close>).
\<close>

datatype number = Num real | PosInf | NegInf | NaN

fun js_neg :: "number \<Rightarrow> number" where
  "js_neg (Num a) = Num (- a)"
| "js_neg PosInf = NegInf"
| "js_neg NegInf = PosInf"
| "js_neg NaN = NaN"

fun js_add :: "number \<Rightarrow> number \<Rightarrow> number" where
  "js_add (Num a) (Num b) = Num (a + b)"
| "js_add NaN _ = NaN"
| "js_add _ NaN = NaN"
| "js_add PosInf NegInf = NaN"
| "js_add NegInf PosInf = NaN"
| "js_add PosInf _ = PosInf"
| "js_add _ PosInf = PosInf"
| "js_add NegInf _ = NegInf"
| "js_add _ NegInf = NegInf"

definition js_sub :: "number \<Rightarrow> number \<Rightarrow> number" where
  "js_sub a b = js_add a (js_neg b)"

text \<open>An infinity times a finite value: \<open>NaN\<close> at zero, else an infinity of the product's sign.\<close>

definition inf_times :: "bool \<Rightarrow> real \<Rightarrow> number" where
  "inf_times positive a =
     (if a = 0 then NaN else if (0 < a) = positive then PosInf else NegInf)"

fun js_mul :: "number \<Rightarrow> number \<Rightarrow> number" where
  "js_mul (Num a) (Num b) = Num (a * b)"
| "js_mul NaN _ = NaN"
| "js_mul _ NaN = NaN"
| "js_mul PosInf (Num b) = inf_times True b"
| "js_mul NegInf (Num b) = inf_times False b"
| "js_mul (Num a) PosInf = inf_times True a"
| "js_mul (Num a) NegInf = inf_times False a"
| "js_mul PosInf PosInf = PosInf"
| "js_mul NegInf NegInf = PosInf"
| "js_mul PosInf NegInf = NegInf"
| "js_mul NegInf PosInf = NegInf"

fun js_div :: "number \<Rightarrow> number \<Rightarrow> number" where
  "js_div (Num a) (Num b) =
     (if b \<noteq> 0 then Num (a / b)
      else if a = 0 then NaN
      else if 0 < a then PosInf else NegInf)"
| "js_div NaN _ = NaN"
| "js_div _ NaN = NaN"
| "js_div (Num a) PosInf = Num 0"
| "js_div (Num a) NegInf = Num 0"
| "js_div PosInf (Num b) = (if 0 \<le> b then PosInf else NegInf)"
| "js_div NegInf (Num b) = (if 0 \<le> b then NegInf else PosInf)"
| "js_div PosInf _ = NaN"
| "js_div NegInf _ = NaN"

text \<open>The comparison \<open>a > b\<close>: false as soon as an operand is \<open>NaN\<close>.\<close>

fun js_gt :: "number \<Rightarrow> number \<Rightarrow> bool" where
  "js_gt (Num a) (Num b) = (b < a)"
| "js_gt NaN _ = False"
| "js_gt _ NaN = False"
| "js_gt PosInf PosInf = False"
| "js_gt PosInf _ = True"
| "js_gt _ PosInf = False"
| "js_gt NegInf _ = False"
| "js_gt (Num a) NegInf = True"

text \<open>\<open>Math.round\<close>: to the nearest integer, a tie towards plus infinity.\<close>

definition Math_round :: "real \<Rightarrow> int" where
  "Math_round x = \<lfloor>x + 1 / 2\<rfloor>"

fun js_round :: "number \<Rightarrow> number" where
  "js_round (Num a) = Num (real_of_int (Math_round a))"
| "js_round n = n"

text \<open>\<open>Math.round(x * 100) / 100\<close>, on a finite value and on a number.\<close>

definition round2 :: "real \<Rightarrow> real" where
  "round2 x = real_of_int (Math_round (x * 100)) / 100"

definition js_round2 :: "number \<Rightarrow> number" where
  "js_round2 n = js_div (js_round (js_mul n (Num 100))) (Num 100)"

text \<open>Decimal rendering of an integer, as a template literal renders it.\<close>

fun show_nat :: "nat \<Rightarrow> string" where
  "show_nat n =
     (if n < 10 then [''0123456789'' ! n]
      else show_nat (n div 10) @ [''0123456789'' ! (n mod 10)])"

declare show_nat.simps [simp del]

definition show_int :: "int \<Rightarrow> string" where
  "show_int i = (if i < 0 then ''-'' @ show_nat (nat (- i)) else show_nat (nat i))"

text \<open>
  Rendering of a number inside a template literal. The program renders only results
  of \<open>Math.round\<close>, so a finite value is an integer here.
\<close>

fun show_number :: "number \<Rightarrow> string" where
  "show_number (Num a) = show_int \<lfloor>a\<rfloor>"
| "show_number PosInf = ''Infinity''"
| "show_number NegInf = ''-Infinity''"
| "show_number NaN = ''NaN''"

text \<open>
  \<open>Array.prototype.sort(comparefn)\<close> belongs to the language, not to the repository.
  ECMAScript requires it to be stable, to place \<open>b\<close> before \<open>a\<close> when
  \<open>comparefn(a, b) > 0\<close>, and to read a \<open>NaN\<close> result as \<open>0\<close>. It is modelled as
  the stable insertion sort.
\<close>

fun insert_cmp :: "('a \<Rightarrow> 'a \<Rightarrow> number) \<Rightarrow> 'a \<Rightarrow> 'a list \<Rightarrow> 'a list" where
  "insert_cmp cmp x [] = [x]"
| "insert_cmp cmp x (y # ys) =
     (if js_gt (cmp x y) (Num 0) then y # insert_cmp cmp x ys else x # y # ys)"

definition Array_sort :: "('a \<Rightarrow> 'a \<Rightarrow> number) \<Rightarrow> 'a list \<Rightarrow> 'a list" where
  "Array_sort cmp xs = foldr (insert_cmp cmp) xs []"

section \<open>Reasoning strings (win-probability.ts)\<close>

definition generateReasoning ::
  "Player \<Rightarrow> Player \<Rightarrow> WinProbabilityFactors \<Rightarrow> HeadToHead option \<Rightarrow> string list" where
  "generateReasoning player opponent fs headToHead =
    (let slDiff = skillLevel player - skillLevel opponent;
         reasons =
           (if slDiff > 0 then
              [name player @ '' is a higher skill level (SL'' @ show_int (skillLevel player)
                 @ '' vs SL'' @ show_int (skillLevel opponent) @ '')'']
            else if slDiff < 0 then
              [name player @ '' gets favorable handicap (SL'' @ show_int (skillLevel player)
                 @ '' vs SL'' @ show_int (skillLevel opponent) @ '')'']
            else
              [''Even skill level matchup (both SL'' @ show_int (skillLevel player) @ '')'']);
         reasons =
           (if winPercentageDelta fs > 0.55 then
              reasons @ [name player @ '' has a higher win percentage this season'']
            else if winPercentageDelta fs < 0.45 then
              reasons @ [name opponent @ '' has been winning more consistently'']
            else reasons);
         reasons =
           (case headToHead of
              None \<Rightarrow> reasons
            | Some h \<Rightarrow>
                if totalGames h > 0 then
                  (let winRate =
                         Math_round (real_of_int (wins h) / real_of_int (totalGames h) * 100)
                   in if winRate > 55 then
                        reasons @ [name player @ '' is '' @ show_int (wins h) @ ''-''
                          @ show_int (losses h) @ '' against '' @ name opponent]
                      else if winRate < 45 then
                        reasons @ [name opponent @ '' has won most of their matchups (''
                          @ show_int (losses h) @ ''-'' @ show_int (wins h) @ '')'']
                      else
                        reasons @ [''Even head-to-head history ('' @ show_int (wins h)
                          @ ''-'' @ show_int (losses h) @ '')''])
                else reasons)
     in if recentFormTrend fs > 0.55 then
          reasons @ [name player @ '' has been performing well recently'']
        else if recentFormTrend fs < 0.45 then
          reasons @ [name player @ '' may be in a slump lately'']
        else reasons)"

section \<open>Matchup aggregator (matchup-calculator.ts)\<close>

text \<open>
  \<open>MatchupInput\<close> and \<open>OpponentInput\<close> have the same three fields. The
  head-to-head data is a \<open>Map<string, HeadToHead>\<close> keyed by the template literal
  \<open>`${playerId}-${opponentId}`\<close>.
\<close>

record MatchupInput =
  player :: Player
  stats :: "PlayerStats option"
  recentStats :: "PlayerStats list option"

type_synonym OpponentInput = MatchupInput

definition h2hKey :: "int \<Rightarrow> int \<Rightarrow> string" where
  "h2hKey a b = show_int a @ ''-'' @ show_int b"

record MatchupRecommendation =
  playerId_R :: int
  playerName :: string
  winProbability :: number
  confidence_R :: real
  reasoning :: "string list"
  factors_R :: WinProbabilityFactors

text \<open>The body of the loop of \<open>getMatchupRecommendations\<close>: one recommendation per player.\<close>

definition matchupRecommendation ::
  "OpponentInput \<Rightarrow> (string \<rightharpoonup> HeadToHead) \<Rightarrow> MatchupInput \<Rightarrow> MatchupRecommendation" where
  "matchupRecommendation opponent headToHeadData playerInput =
    (let key = h2hKey (player_id (player playerInput)) (player_id (player opponent));
         headToHead = headToHeadData key;
         result = calculateWinProbability (player playerInput) (stats playerInput)
                    (player opponent) (stats opponent) headToHead
                    (recentStats playerInput) (recentStats opponent);
         reasons = generateReasoning (player playerInput) (player opponent)
                     (factors result) headToHead
     in \<lparr>playerId_R = player_id (player playerInput),
         playerName = name (player playerInput),
         winProbability = Num (round2 (probability result)),
         confidence_R = round2 (confidence result),
         reasoning = reasons,
         factors_R = factors result\<rparr>)"

definition getMatchupRecommendations ::
  "MatchupInput list \<Rightarrow> OpponentInput \<Rightarrow> (string \<rightharpoonup> HeadToHead) \<Rightarrow>
   int \<Rightarrow> int \<Rightarrow> int \<Rightarrow> MatchupRecommendation list" where
  "getMatchupRecommendations availablePlayers opponent headToHeadData
      gameNumber ourScore theirScore =
    (let recommendations = map (matchupRecommendation opponent headToHeadData) availablePlayers
     in Array_sort (\<lambda>a b. js_sub (winProbability b) (winProbability a)) recommendations)"

text \<open>
  The inner loop of \<open>getBestOpener\<close>: the running total of the probabilities and of
  the five factors over the opponents.
\<close>

definition openerAccumulate ::
  "MatchupInput \<Rightarrow> (string \<rightharpoonup> HeadToHead) \<Rightarrow> real \<times> WinProbabilityFactors \<Rightarrow>
   OpponentInput \<Rightarrow> real \<times> WinProbabilityFactors" where
  "openerAccumulate playerInput headToHeadData acc opponent =
    (let (totalProbability, playerFactors) = acc;
         key = h2hKey (player_id (player playerInput)) (player_id (player opponent));
         headToHead = headToHeadData key;
         result = calculateWinProbability (player playerInput) (stats playerInput)
                    (player opponent) (stats opponent) headToHead
                    (recentStats playerInput) (recentStats opponent);
         fs = factors result
     in (totalProbability + probability result,
         \<lparr>skillLevelAdvantage = skillLevelAdvantage playerFactors + skillLevelAdvantage fs,
          winPercentageDelta = winPercentageDelta playerFactors + winPercentageDelta fs,
          headToHeadRecord = headToHeadRecord playerFactors + headToHeadRecord fs,
          recentFormTrend = recentFormTrend playerFactors + recentFormTrend fs,
          ppmEfficiency = ppmEfficiency playerFactors + ppmEfficiency fs\<rparr>))"

text \<open>
  The body of the outer loop: the state is \<open>(bestAvgProbability, bestPlayer)\<close>. The
  divisor \<open>opponents.length\<close> is not zero here, by the guard of \<open>getBestOpener\<close>.
\<close>

definition openerStep ::
  "OpponentInput list \<Rightarrow> (string \<rightharpoonup> HeadToHead) \<Rightarrow>
   real \<times> MatchupRecommendation option \<Rightarrow> MatchupInput \<Rightarrow>
   real \<times> MatchupRecommendation option" where
  "openerStep opponents headToHeadData best playerInput =
    (let (bestAvgProbability, bestPlayer) = best;
         (totalProbability, playerFactors) =
            foldl (openerAccumulate playerInput headToHeadData)
              (0, \<lparr>skillLevelAdvantage = 0, winPercentageDelta = 0, headToHeadRecord = 0,
                   recentFormTrend = 0, ppmEfficiency = 0\<rparr>) opponents;
         avgProbability = totalProbability / real (length opponents);
         numOpponents = real (length opponents);
         playerFactors =
           \<lparr>skillLevelAdvantage = skillLevelAdvantage playerFactors / numOpponents,
            winPercentageDelta = winPercentageDelta playerFactors / numOpponents,
            headToHeadRecord = headToHeadRecord playerFactors / numOpponents,
            recentFormTrend = recentFormTrend playerFactors / numOpponents,
            ppmEfficiency = ppmEfficiency playerFactors / numOpponents\<rparr>
     in if avgProbability > bestAvgProbability then
          (avgProbability,
           Some \<lparr>playerId_R = player_id (player playerInput),
                 playerName = name (player playerInput),
                 winProbability = Num (round2 avgProbability),
                 confidence_R = 0.7,
                 reasoning =
                   [name (player playerInput) @ '' has strong matchups across the board'',
                    ''Average '' @ show_int (Math_round (avgProbability * 100))
                      @ ''% win probability vs all opponents''],
                 factors_R = playerFactors\<rparr>)
        else (bestAvgProbability, bestPlayer))"

definition getBestOpener ::
  "MatchupInput list \<Rightarrow> OpponentInput list \<Rightarrow> (string \<rightharpoonup> HeadToHead) \<Rightarrow>
   MatchupRecommendation option" where
  "getBestOpener availablePlayers opponents headToHeadData =
    (if length availablePlayers = 0 \<or> length opponents = 0 then None
     else snd (foldl (openerStep opponents headToHeadData) (0, None) availablePlayers))"






text \<open>
  \<open>factorial\<close> and \<open>binomialProbability\<close>. In \<open>calculateMatchWinProbability\<close> the
  loop variable runs from \<open>ourGamesNeeded \<ge> 1\<close> up to \<open>gamesRemaining\<close>, so both
  exponents of \<open>Math.pow\<close> are natural numbers; the factorials are at least 1.
\<close>

function factorial :: "int \<Rightarrow> int" where
  "factorial n = (if n \<le> 1 then 1 else n * factorial (n - 1))"
  by pat_completeness auto
termination
  by (relation "measure nat") auto

declare factorial.simps [simp del]

definition binomialProbability :: "int \<Rightarrow> int \<Rightarrow> real \<Rightarrow> real" where
  "binomialProbability n k p =
    (let coefficient =
           real_of_int (factorial n) / real_of_int (factorial k * factorial (n - k))
     in coefficient * p ^ nat k * (1 - p) ^ nat (n - k))"

text \<open>The two nested loops over the remaining players: \<open>(totalProb, matchups)\<close>.\<close>

definition matchupAccumulate ::
  "(string \<rightharpoonup> HeadToHead) \<Rightarrow> MatchupInput \<Rightarrow> real \<times> int \<Rightarrow> OpponentInput \<Rightarrow> real \<times> int" where
  "matchupAccumulate headToHeadData ourPlayer acc theirPlayer =
    (let (totalProb, matchups) = acc;
         key = h2hKey (player_id (player ourPlayer)) (player_id (player theirPlayer));
         headToHead = headToHeadData key;
         result = calculateWinProbability (player ourPlayer) (stats ourPlayer)
                    (player theirPlayer) (stats theirPlayer) headToHead None None
     in (totalProb + probability result, matchups + 1))"

definition calculateMatchWinProbability ::
  "int \<Rightarrow> int \<Rightarrow> MatchupInput list \<Rightarrow> OpponentInput list \<Rightarrow>
   (string \<rightharpoonup> HeadToHead) \<Rightarrow> real" where
  "calculateMatchWinProbability ourScore theirScore ourRemainingPlayers
      theirRemainingPlayers headToHeadData =
    (let gamesNeededToWin = 3;
         ourGamesNeeded = gamesNeededToWin - ourScore;
         theirGamesNeeded = gamesNeededToWin - theirScore
     in if ourGamesNeeded \<le> 0 then 1
        else if theirGamesNeeded \<le> 0 then 0
        else
          (let (totalProb, matchups) =
                 foldl (\<lambda>acc ourPlayer.
                          foldl (matchupAccumulate headToHeadData ourPlayer) acc
                            theirRemainingPlayers)
                   (0, 0) ourRemainingPlayers;
               avgWinProb = (if matchups > 0 then totalProb / real_of_int matchups else 0.5);
               gamesRemaining =
                 min (int (length ourRemainingPlayers)) (int (length theirRemainingPlayers));
               matchWinProb =
                 foldl (\<lambda>acc w. acc + binomialProbability gamesRemaining w avgWinProb)
                   0 [ourGamesNeeded..gamesRemaining]
           in max 0.05 (min 0.95 matchWinProb)))"

section \<open>Match-state advisor (recommendation-engine.ts)\<close>

text \<open>The result of a game slot is one of the strings \<open>'win'\<close>, \<open>'loss'\<close>, \<open>'pending'\<close>.\<close>

datatype GameOutcome = Win | Loss | Pending

record LiveGame =
  gameNumber :: int
  ourPlayerId :: "int option"
  theirPlayerId :: "int option"
  result :: GameOutcome

record LiveMatch =
  games :: "LiveGame list"
  currentGame :: int
  ourScore :: int
  theirScore :: int

definition getAvailablePlayers :: "Player list \<Rightarrow> LiveMatch \<Rightarrow> Player list" where
  "getAvailablePlayers presentPlayers liveMatch =
    (let playedPlayerIds =
           set (map (\<lambda>g. the (ourPlayerId g))
                  (filter (\<lambda>g. ourPlayerId g \<noteq> None) (games liveMatch)))
     in filter (\<lambda>p. player_id p \<notin> playedPlayerIds) presentPlayers)"

text \<open>
  The blind path of \<open>getThrowRecommendation\<close>, one player: the total over the
  opponents, then the average. The divisor \<open>opponentPlayers.length\<close> is not guarded.
\<close>

definition blindAccumulate ::
  "MatchupInput \<Rightarrow> (string \<rightharpoonup> HeadToHead) \<Rightarrow> LiveMatch \<Rightarrow> number \<Rightarrow> OpponentInput \<Rightarrow> number" where
  "blindAccumulate playerInput headToHeadData liveMatch totalProb opponent =
    (let matchups = getMatchupRecommendations [playerInput] opponent headToHeadData
                      (currentGame liveMatch) (ourScore liveMatch) (theirScore liveMatch)
     in if length matchups > 0 then js_add totalProb (winProbability (matchups ! 0))
        else totalProb)"

definition blindRecommendation ::
  "OpponentInput list \<Rightarrow> (string \<rightharpoonup> HeadToHead) \<Rightarrow> LiveMatch \<Rightarrow> MatchupInput \<Rightarrow>
   MatchupRecommendation" where
  "blindRecommendation opponentPlayers headToHeadData liveMatch playerInput =
    (let totalProb = foldl (blindAccumulate playerInput headToHeadData liveMatch) (Num 0)
                       opponentPlayers;
         avgProb = js_div totalProb (Num (real (length opponentPlayers)))
     in \<lparr>playerId_R = player_id (player playerInput),
         playerName = name (player playerInput),
         winProbability = js_round2 avgProb,
         confidence_R = 0.65,
         reasoning =
           [name (player playerInput) @ '' averages ''
              @ show_number (js_round (js_mul avgProb (Num 100))) @ ''% win probability'',
            ''Strong across multiple opponent matchups''],
         factors_R = \<lparr>skillLevelAdvantage = 0.5, winPercentageDelta = 0.5,
                       headToHeadRecord = 0.5, recentFormTrend = 0.5, ppmEfficiency = 0.5\<rparr>\<rparr>)"

definition getThrowRecommendation ::
  "MatchupInput list \<Rightarrow> OpponentInput list \<Rightarrow> (string \<rightharpoonup> HeadToHead) \<Rightarrow> LiveMatch \<Rightarrow>
   OpponentInput option \<Rightarrow> MatchupRecommendation list" where
  "getThrowRecommendation availablePlayers opponentPlayers headToHeadData liveMatch
      theirCurrentPlayer =
    (case theirCurrentPlayer of
       Some their \<Rightarrow>
         getMatchupRecommendations availablePlayers their headToHeadData
           (currentGame liveMatch) (ourScore liveMatch) (theirScore liveMatch)
     | None \<Rightarrow>
         (let recommendations =
                map (blindRecommendation opponentPlayers headToHeadData liveMatch)
                  availablePlayers
          in Array_sort (\<lambda>a b. js_sub (winProbability b) (winProbability a))
               recommendations))"

section \<open>Head-to-head records (utils.ts and the accumulation of syncAll)\<close>

text \<open>
  A game result as \<open>buildHeadToHeadRecords\<close> receives it; dates are time stamps. The
  \<open>Map\<close> that the loop fills keeps its keys in insertion order, so it is an
  association list, updated in place or extended at the end.
\<close>

record GameResultInput =
  playerId_G :: int
  opponentId_G :: int
  won :: bool
  pointsScored :: real
  pointsNeeded_G :: real
  playedAt :: int

definition recordGame :: "(string \<times> HeadToHead) list \<Rightarrow> GameResultInput \<Rightarrow> (string \<times> HeadToHead) list" where
  "recordGame h2hMap game =
    (let key = h2hKey (playerId_G game) (opponentId_G game);
         h2h = (case map_of h2hMap key of
                  Some h \<Rightarrow> h
                | None \<Rightarrow>
                    \<lparr>playerId = playerId_G game, opponentId = opponentId_G game,
                     totalGames = 0, wins = 0, losses = 0,
                     avgPointsScored = 0, avgPointsNeeded = 0,
                     lastPlayed = playedAt game\<rparr>);
         h2h = h2h\<lparr>totalGames := totalGames h2h + 1\<rparr>;
         h2h = (if won game then h2h\<lparr>wins := wins h2h + 1\<rparr>
                else h2h\<lparr>losses := losses h2h + 1\<rparr>);
         h2h = h2h\<lparr>avgPointsScored :=
                  (avgPointsScored h2h * real_of_int (totalGames h2h - 1) + pointsScored game)
                    / real_of_int (totalGames h2h)\<rparr>;
         h2h = h2h\<lparr>avgPointsNeeded :=
                  (avgPointsNeeded h2h * real_of_int (totalGames h2h - 1) + pointsNeeded_G game)
                    / real_of_int (totalGames h2h)\<rparr>;
         h2h = (if playedAt game > lastPlayed h2h then h2h\<lparr>lastPlayed := playedAt game\<rparr>
                else h2h)
     in AList.update key h2h h2hMap)"

definition buildHeadToHeadRecords :: "GameResultInput list \<Rightarrow> HeadToHead list" where
  "buildHeadToHeadRecords gameResults = map snd (foldl recordGame [] gameResults)"

text \<open>
  The accumulation inside \<open>syncAll\<close>: the items of every fetched match history, each
  with the identifier of the player whose history it is, in the order of the loops.
\<close>

record MatchHistoryItem =
  historyPlayerId :: int
  opponent_id :: int
  won_H :: bool
  pointsAwarded :: real
  pointsNeeded_H :: real
  datePlayed :: int

definition syncRecordItem :: "(string \<times> HeadToHead) list \<Rightarrow> MatchHistoryItem \<Rightarrow> (string \<times> HeadToHead) list" where
  "syncRecordItem headToHeadMap item =
    (let key = h2hKey (historyPlayerId item) (opponent_id item)
     in case map_of headToHeadMap key of
          Some existing \<Rightarrow>
            (let existing = existing\<lparr>totalGames := totalGames existing + 1\<rparr>;
                 existing = (if won_H item then existing\<lparr>wins := wins existing + 1\<rparr>
                             else existing\<lparr>losses := losses existing + 1\<rparr>);
                 existing = existing\<lparr>avgPointsScored :=
                   (avgPointsScored existing * real_of_int (totalGames existing - 1)
                      + pointsAwarded item) / real_of_int (totalGames existing)\<rparr>;
                 existing = existing\<lparr>avgPointsNeeded :=
                   (avgPointsNeeded existing * real_of_int (totalGames existing - 1)
                      + pointsNeeded_H item) / real_of_int (totalGames existing)\<rparr>;
                 existing = (if datePlayed item > lastPlayed existing
                             then existing\<lparr>lastPlayed := datePlayed item\<rparr>
                             else existing)
             in AList.update key existing headToHeadMap)
        | None \<Rightarrow>
            AList.update key
              \<lparr>playerId = historyPlayerId item, opponentId = opponent_id item,
               totalGames = 1,
               wins = (if won_H item then 1 else 0),
               losses = (if won_H item then 0 else 1),
               avgPointsScored = pointsAwarded item,
               avgPointsNeeded = pointsNeeded_H item,
               lastPlayed = datePlayed item\<rparr>
              headToHeadMap)"

definition syncHeadToHead :: "MatchHistoryItem list \<Rightarrow> HeadToHead list" where
  "syncHeadToHead items = map snd (foldl syncRecordItem [] items)"

section \<open>Predicates and inputs used by the theorems\<close>

text \<open>The invariant of a head-to-head record.\<close>

definition balanced :: "HeadToHead \<Rightarrow> bool" where
  "balanced h = (wins h + losses h = totalGames h)"

text \<open>
  The specification's reading of a player who has played: some game slot whose result
  is not pending has the player as \<open>ourPlayerId\<close>.
\<close>

definition assignedNonPending :: "LiveMatch \<Rightarrow> int \<Rightarrow> bool" where
  "assignedNonPending liveMatch pid =
     list_ex (\<lambda>g. result g \<noteq> Pending \<and> ourPlayerId g = Some pid) (games liveMatch)"

text \<open>Two players of skill level 5, and a live match whose first slot is assigned and pending.\<close>

definition alice :: Player where
  "alice = \<lparr>player_id = 1, name = ''Alice'', skillLevel = 5\<rparr>"

definition bob :: Player where
  "bob = \<lparr>player_id = 2, name = ''Bob'', skillLevel = 5\<rparr>"

definition aliceInput :: MatchupInput where
  "aliceInput = \<lparr>player = alice, stats = None, recentStats = None\<rparr>"


definition firstGameAssigned :: LiveMatch where
  "firstGameAssigned =
     \<lparr>games = [\<lparr>gameNumber = 1, ourPlayerId = Some 1, theirPlayerId = None, result = Pending\<rparr>,
               \<lparr>gameNumber = 2, ourPlayerId = None, theirPlayerId = None, result = Pending\<rparr>],
      currentGame = 1, ourScore = 0, theirScore = 0\<rparr>"

text \<open>Head-to-head records of one win in one game and of nine wins in ten games.\<close>

definition oneAndNil :: HeadToHead where
  "oneAndNil = \<lparr>playerId = 1, opponentId = 2, totalGames = 1, wins = 1, losses = 0,
     avgPointsScored = 38, avgPointsNeeded = 38, lastPlayed = 0\<rparr>"

definition nineAndOne :: HeadToHead where
  "nineAndOne = \<lparr>playerId = 1, opponentId = 2, totalGames = 10, wins = 9, losses = 1,
     avgPointsScored = 38, avgPointsNeeded = 38, lastPlayed = 0\<rparr>"

text \<open>Two games between the same pair of players, one won and one lost.\<close>

definition twoGames :: "GameResultInput list" where
  "twoGames =
     [\<lparr>playerId_G = 1, opponentId_G = 2, won = True, pointsScored = 38,
       pointsNeeded_G = 38, playedAt = 10\<rparr>,
      \<lparr>playerId_G = 1, opponentId_G = 2, won = False, pointsScored = 20,
       pointsNeeded_G = 38, playedAt = 20\<rparr>]"

definition twoItems :: "MatchHistoryItem list" where
  "twoItems =
     [\<lparr>historyPlayerId = 1, opponent_id = 2, won_H = True, pointsAwarded = 38,
       pointsNeeded_H = 38, datePlayed = 10\<rparr>,
      \<lparr>historyPlayerId = 1, opponent_id = 2, won_H = False, pointsAwarded = 20,
       pointsNeeded_H = 38, datePlayed = 20\<rparr>]"

text \<open>The record that both accumulations build from the two games above.\<close>

definition evenRecord :: HeadToHead where
  "evenRecord = \<lparr>playerId = 1, opponentId = 2, totalGames = 2, wins = 1, losses = 1,
     avgPointsScored = 29, avgPointsNeeded = 38, lastPlayed = 20\<rparr>"






definition history :: "string \<rightharpoonup> HeadToHead" where
  "history =
     [''1-2'' \<mapsto> \<lparr>playerId = 1, opponentId = 2, totalGames = 10, wins = 9, losses = 1,
                  avgPointsScored = 38, avgPointsNeeded = 38, lastPlayed = 0\<rparr>,
      ''2-1'' \<mapsto> \<lparr>playerId = 2, opponentId = 1, totalGames = 20, wins = 9, losses = 11,
                  avgPointsScored = 30, avgPointsNeeded = 38, lastPlayed = 0\<rparr>]"

section \<open>The win-probability model\<close>



lemma factors_headToHeadRecord:
  "headToHeadRecord (factors (calculateWinProbability p ps opp os h rp ro)) =
     fst (headToHeadRecord_factor h)"
  by (simp add: calculateWinProbability_def Let_def split: prod.splits)

lemma getPointsNeeded_pos: "0 < getPointsNeeded sl"
  by (simp add: getPointsNeeded_def NINE_BALL_SKILL_LEVELS_def)

lemma getBaseWinProbability_equal: "getBaseWinProbability sl sl = 0.5"
  using getPointsNeeded_pos [of sl]
  by (simp add: getBaseWinProbability_def Let_def)


text \<open>
  C7. With a head-to-head record of at least one game, the head-to-head factor is
  \<open>0.5 + (wins / totalGames - 0.5) * min (totalGames / 10) 1\<close>. For a record of one win
  in one game the factor lies strictly between 0.5 and 1, and strictly closer to 0.5
  than the factor of a record of nine wins in ten games.
\<close>

theorem headToHeadRecord_regression:
  "(0 < totalGames h \<longrightarrow>
      headToHeadRecord (factors (calculateWinProbability p ps opp os (Some h) rp ro)) =
        0.5 + (real_of_int (wins h) / real_of_int (totalGames h) - 0.5)
                * min (real_of_int (totalGames h) / 10) 1) \<and>
   (totalGames h1 = 1 \<and> wins h1 = 1 \<and> totalGames h9 = 10 \<and> wins h9 = 9 \<longrightarrow>
      (let f1 = headToHeadRecord (factors (calculateWinProbability p ps opp os (Some h1) rp ro));
           f9 = headToHeadRecord (factors (calculateWinProbability p ps opp os (Some h9) rp ro))
       in 0.5 < f1 \<and> f1 < 1 \<and> \<bar>f1 - 0.5\<bar> < \<bar>f9 - 0.5\<bar>))"
  by (simp add: factors_headToHeadRecord headToHeadRecord_factor_def Let_def)

theorem headToHeadRecord_regression_witness:
  "0 < totalGames oneAndNil \<and>
   totalGames oneAndNil = 1 \<and> wins oneAndNil = 1 \<and>
   totalGames nineAndOne = 10 \<and> wins nineAndOne = 9 \<and>
   headToHeadRecord (factors (calculateWinProbability alice None bob None
     (Some oneAndNil) None None)) = 0.55 \<and>
   headToHeadRecord (factors (calculateWinProbability alice None bob None
     (Some nineAndOne) None None)) = 0.9"
  using headToHeadRecord_regression [of oneAndNil alice None bob None None None
          oneAndNil nineAndOne]
        headToHeadRecord_regression [of nineAndOne alice None bob None None None
          oneAndNil nineAndOne]
  by (simp add: oneAndNil_def nineAndOne_def)

text \<open>
  C8. For two players of the same skill level and no optional data, the five factors
  are all 0.5, the weighted sum before the clamp is 0.5, the returned probability is
  0.5 and one data point is counted.
\<close>

theorem calculateWinProbability_neutral:
  assumes "skillLevel player1 = skillLevel opponent1"
  shows "factors (calculateWinProbability player1 None opponent1 None None None None) =
           \<lparr>skillLevelAdvantage = 0.5, winPercentageDelta = 0.5, headToHeadRecord = 0.5,
            recentFormTrend = 0.5, ppmEfficiency = 0.5\<rparr> \<and>
         weightedProbability
           (factors (calculateWinProbability player1 None opponent1 None None None None)) = 0.5 \<and>
         probability (calculateWinProbability player1 None opponent1 None None None None) = 0.5 \<and>
         dataPoints (calculateWinProbability player1 None opponent1 None None None None) = 1"
  using assms
  by (simp add: calculateWinProbability_def Let_def getBaseWinProbability_equal
      winPercentageDelta_factor_def headToHeadRecord_factor_def recentFormTrend_factor_def
      ppmEfficiency_factor_def weightedProbability_def WEIGHTS_def)

theorem calculateWinProbability_neutral_witness:
  "skillLevel alice = skillLevel bob \<and>
   probability (calculateWinProbability alice None bob None None None None) = 0.5 \<and>
   dataPoints (calculateWinProbability alice None bob None None None None) = 1"
proof -
  have same: "skillLevel alice = skillLevel bob"
    by (simp add: alice_def bob_def)
  show ?thesis
    using same calculateWinProbability_neutral [OF same] by simp
qed

section \<open>Ranking of matchups\<close>







section \<open>The best opener\<close>









section \<open>Throwing first or deferring\<close>











section \<open>Match win probability\<close>




text \<open>With scores below 3 and an empty side, the average is the guarded 0.5 and the result the lower clamp.\<close>

lemma calculateMatchWinProbability_empty:
  "ourS < 3 \<Longrightarrow> theirS < 3 \<Longrightarrow> ours = [] \<or> theirs = [] \<Longrightarrow>
   calculateMatchWinProbability ourS theirS ours theirs h = 0.05"
  by (auto simp: calculateMatchWinProbability_def Let_def split: prod.splits)

section \<open>Availability and the blind throw\<close>

text \<open>
  C5, as the code has it. \<open>getAvailablePlayers\<close> keeps, in order, exactly the present
  players that no game slot has as \<open>ourPlayerId\<close>, whether the result of the slot is
  pending or not.
\<close>

theorem getAvailablePlayers_unassigned:
  "getAvailablePlayers presentPlayers liveMatch =
     filter (\<lambda>p. \<not> list_ex (\<lambda>g. ourPlayerId g = Some (player_id p)) (games liveMatch))
       presentPlayers"
  unfolding getAvailablePlayers_def Let_def
  by (rule filter_cong) (auto simp: list_ex_iff image_iff)

text \<open>
  A player assigned to a slot that is still pending is not available, although no
  slot with another result has the player.
\<close>

theorem getAvailablePlayers_pending_slot:
  "\<not> assignedNonPending firstGameAssigned (player_id alice) \<and>
   alice \<notin> set (getAvailablePlayers [alice] firstGameAssigned)"
  by (simp add: assignedNonPending_def firstGameAssigned_def alice_def getAvailablePlayers_def)

text \<open>The guard of \<open>getBestOpener\<close>.\<close>

lemma getBestOpener_empty:
  "getBestOpener [] os h = None" "getBestOpener ps [] h = None"
  by (simp_all add: getBestOpener_def)

lemma js_sub_NaN: "js_sub a NaN = NaN"
  by (cases a) (simp_all add: js_sub_def)

lemma insert_cmp_NaN:
  "w x = NaN \<Longrightarrow> insert_cmp (\<lambda>a b. js_sub (w b) (w a)) x ys = x # ys"
  by (cases ys) (simp_all add: js_sub_NaN)

lemma Array_sort_NaN:
  "list_all (\<lambda>x. w x = NaN) xs \<Longrightarrow> Array_sort (\<lambda>a b. js_sub (w b) (w a)) xs = xs"
  by (induction xs) (simp_all add: Array_sort_def insert_cmp_NaN)

lemma blindRecommendation_no_opponents:
  "winProbability (blindRecommendation [] h liveMatch playerInput) = NaN"
  by (simp add: blindRecommendation_def js_round2_def Let_def)

text \<open>
  C1. On the blind path of \<open>getThrowRecommendation\<close>, with no opponent, every
  available player gets a recommendation whose win probability is \<open>NaN\<close>: the
  average divides the total 0 by \<open>opponentPlayers.length = 0\<close>.
\<close>

theorem getThrowRecommendation_blind_no_opponents:
  "map winProbability (getThrowRecommendation availablePlayers [] h liveMatch None) =
     replicate (length availablePlayers) NaN"
proof -
  let ?recs = "map (blindRecommendation [] h liveMatch) availablePlayers"
  have "list_all (\<lambda>r. winProbability r = NaN) ?recs"
    by (simp add: list_all_iff blindRecommendation_no_opponents)
  then have "getThrowRecommendation availablePlayers [] h liveMatch None = ?recs"
    by (simp add: getThrowRecommendation_def Array_sort_NaN)
  then show ?thesis
    by (simp add: blindRecommendation_no_opponents map_replicate_const comp_def)
qed

text \<open>One player and no opponent: a single recommendation, \<open>NaN\<close>.\<close>

lemma getThrowRecommendation_alice_alone:
  "map winProbability
     (getThrowRecommendation [aliceInput] [] Map.empty firstGameAssigned None) = [NaN]"
  by (simp add: getThrowRecommendation_def blindRecommendation_def Array_sort_def
        js_round2_def Let_def)

section \<open>Head-to-head records\<close>

lemma update_all:
  "list_all P (map snd al) \<Longrightarrow> P v \<Longrightarrow> list_all P (map snd (AList.update k v al))"
  by (induction al) auto

lemma map_of_all: "list_all P (map snd al) \<Longrightarrow> map_of al k = Some h \<Longrightarrow> P h"
  by (force simp: list_all_iff dest: map_of_SomeD)

lemma recordGame_balanced:
  assumes "list_all balanced (map snd m)"
  shows "list_all balanced (map snd (recordGame m g))"
proof -
  have old: "wins e + losses e = totalGames e" if "map_of m k = Some e" for k e
    using map_of_all [OF assms that] by (simp add: balanced_def)
  show ?thesis
    unfolding recordGame_def Let_def
    by (rule update_all [OF assms]) (auto simp: balanced_def dest: old split: option.splits)
qed

lemma syncRecordItem_balanced:
  assumes "list_all balanced (map snd m)"
  shows "list_all balanced (map snd (syncRecordItem m g))"
proof -
  have old: "wins e + losses e = totalGames e" if "map_of m k = Some e" for k e
    using map_of_all [OF assms that] by (simp add: balanced_def)
  show ?thesis
    by (cases "map_of m (h2hKey (historyPlayerId g) (opponent_id g))")
       (auto simp: syncRecordItem_def Let_def balanced_def dest: old
             intro!: update_all [OF assms])
qed

lemma foldl_recordGame_balanced:
  "list_all balanced (map snd m) \<Longrightarrow> list_all balanced (map snd (foldl recordGame m gs))"
  by (induction gs arbitrary: m) (simp_all add: recordGame_balanced)

lemma foldl_syncRecordItem_balanced:
  "list_all balanced (map snd m) \<Longrightarrow> list_all balanced (map snd (foldl syncRecordItem m gs))"
  by (induction gs arbitrary: m) (simp_all add: syncRecordItem_balanced)

lemma buildHeadToHeadRecords_twoGames: "buildHeadToHeadRecords twoGames = [evenRecord]"
  by (simp add: buildHeadToHeadRecords_def recordGame_def h2hKey_def show_int_def
        show_nat.simps twoGames_def evenRecord_def Let_def)

lemma syncHeadToHead_twoItems: "syncHeadToHead twoItems = [evenRecord]"
  by (simp add: syncHeadToHead_def syncRecordItem_def h2hKey_def show_int_def
        show_nat.simps twoItems_def evenRecord_def Let_def)

text \<open>
  C9. Every record that \<open>buildHeadToHeadRecords\<close> returns, and every record that the
  accumulation of \<open>syncAll\<close> builds, has \<open>wins + losses = totalGames\<close>.
\<close>

theorem headToHead_wins_losses_total:
  "(\<forall>h \<in> set (buildHeadToHeadRecords gameResults). wins h + losses h = totalGames h) \<and>
   (\<forall>h \<in> set (syncHeadToHead items). wins h + losses h = totalGames h)"
  using foldl_recordGame_balanced [of "[]" gameResults]
        foldl_syncRecordItem_balanced [of "[]" items]
  by (simp add: buildHeadToHeadRecords_def syncHeadToHead_def list_all_iff balanced_def)

theorem headToHead_wins_losses_total_witness:
  "evenRecord \<in> set (buildHeadToHeadRecords twoGames) \<and>
   evenRecord \<in> set (syncHeadToHead twoItems) \<and>
   wins evenRecord + losses evenRecord = totalGames evenRecord"
  using headToHead_wins_losses_total [of twoGames twoItems]
  by (simp add: buildHeadToHeadRecords_twoGames syncHeadToHead_twoItems)

end
